theory Spec2Isabelle
  imports Complex_Main "HOL-Library.Sublist"
begin

section \<open>Data model of \<open>lib_sysconfig.py\<close>\<close>

text \<open>
  A \<open>datetime\<close> is an instant with microsecond resolution. Python cannot represent an
  instant before \<open>datetime.min\<close> (0001-01-01T00:00:00), so an instant is the number of
  microseconds since \<open>datetime.min\<close>. The POSIX epoch is 719162 days later.
\<close>

type_synonym datetime = nat

definition datetime_min :: datetime where
  "datetime_min = 0"

definition EPOCH :: datetime where
  "EPOCH = 62135596800000000"

text \<open>
  The unit's key-value store (\<open>unitdata.kv()\<close>) maps string keys to JSON values. The
  program stores two kinds of value: Python floats, here the rational number a finite
  double denotes, and strings. \<open>db.get\<close> of an absent key is \<open>None\<close>.
\<close>

datatype kv_value = Float rat | Str string

type_synonym kv = "string \<rightharpoonup> kv_value"

text \<open>
  A path of the file system is absent, a regular file with its content, or a
  directory. \<open>os.path.exists\<close> holds of files and directories; \<open>open(path, "rb")\<close>
  succeeds on regular files only.
\<close>

datatype fs_entry = RegularFile string | Directory

type_synonym filesystem = "string \<rightharpoonup> fs_entry"

datatype error =
    FileNotFoundError string
  | IsADirectoryError string
  | TypeError
  | ValueError
  | OverflowError
  | CalledProcessError
  | ParsingError
  | OSContextError
  | YAMLError
  | RenderError

text \<open>
  The conversions between datetimes and floats are those of Python's \<open>datetime\<close> on
  IEEE doubles: \<open>timestamp t\<close> is \<open>t.timestamp()\<close>, the seconds since the epoch rounded
  to a double, and \<open>fromtimestamp x\<close> is \<open>datetime.fromtimestamp(x, tz=timezone.utc)\<close>,
  which rounds to a microsecond and raises \<open>ValueError\<close> or \<open>OverflowError\<close> out of
  range. They are parameters of the model; reading a stamp back gives the instant that
  was stored only where the two roundings cancel.
\<close>

record clock =
  timestamp :: "datetime \<Rightarrow> rat"
  fromtimestamp :: "rat \<Rightarrow> error + datetime"

text \<open>Python truthiness of the result of \<open>db.get\<close>: \<open>None\<close>, \<open>0.0\<close> and \<open>""\<close> are false.\<close>

fun truthy :: "kv_value option \<Rightarrow> bool" where
  "truthy None = False"
| "truthy (Some (Float x)) = (x \<noteq> 0)"
| "truthy (Some (Str s)) = (s \<noteq> [])"

text \<open>\<open>datetime.fromtimestamp\<close> applied to a value of the store: a string raises.\<close>

fun fromtimestamp_value :: "clock \<Rightarrow> kv_value \<Rightarrow> error + datetime" where
  "fromtimestamp_value clk (Float x) = fromtimestamp clk x"
| "fromtimestamp_value clk (Str s) = Inl TypeError"

definition clear_notification_time :: "clock \<Rightarrow> kv \<Rightarrow> error + datetime option" where
  "clear_notification_time clk db =
     (let clear_notification_timestamp = db ''clear-notification-timestamp'' in
      if \<not> truthy clear_notification_timestamp then Inr None
      else (case fromtimestamp_value clk (the clear_notification_timestamp) of
              Inl e \<Rightarrow> Inl e
            | Inr t \<Rightarrow> Inr (Some t)))"

text \<open>\<open>clear_notification\<close> stamps the store with the current time \<open>now\<close>.\<close>

definition clear_notification :: "clock \<Rightarrow> datetime \<Rightarrow> kv \<Rightarrow> kv" where
  "clear_notification clk now db =
     db(''clear-notification-timestamp'' \<mapsto> Float (timestamp clk now))"

section \<open>Module constants\<close>

definition GRUB_DEFAULT :: "string \<Rightarrow> string" where
  "GRUB_DEFAULT v = ''Advanced options for Ubuntu>Ubuntu, with Linux '' @ v"

definition GRUB_CONF_TMPL :: string where "GRUB_CONF_TMPL = ''grub.j2''"

definition CPUFREQUTILS :: string where "CPUFREQUTILS = ''/etc/default/cpufrequtils''"
definition GRUB_CONF :: string where "GRUB_CONF = ''/etc/default/grub.d/90-sysconfig.cfg''"
definition SYSTEMD_SYSTEM :: string where "SYSTEMD_SYSTEM = ''/etc/systemd/system.conf''"
definition SYSTEMD_RESOLVED :: string where "SYSTEMD_RESOLVED = ''/etc/systemd/resolved.conf''"
definition SYSCTL_CONF :: string where "SYSCTL_CONF = ''/etc/sysctl.d/90-charm-sysconfig.conf''"
definition KERNEL :: string where "KERNEL = ''kernel''"
definition IRQBALANCE_CONF :: string where "IRQBALANCE_CONF = ''/etc/default/irqbalance''"

text \<open>The resources of the module: the names its constants give to managed artifacts.\<close>

definition module_resources :: "string list" where
  "module_resources =
     [CPUFREQUTILS, GRUB_CONF, SYSTEMD_SYSTEM, SYSTEMD_RESOLVED, SYSCTL_CONF, KERNEL,
      IRQBALANCE_CONF]"

section \<open>\<open>BootResourceState\<close>\<close>

definition key_for :: "string \<Rightarrow> string" where
  "key_for resource_name = ''sysconfig.boot_resource.'' @ resource_name"

definition sha256sum_key :: "string \<Rightarrow> string" where
  "sha256sum_key resource_name = key_for resource_name @ ''.sha256sum''"

text \<open>\<open>open(path, "rb").read()\<close>.\<close>

definition read_file :: "filesystem \<Rightarrow> string \<Rightarrow> error + string" where
  "read_file fs path =
     (case fs path of
        None \<Rightarrow> Inl (FileNotFoundError path)
      | Some Directory \<Rightarrow> Inl (IsADirectoryError path)
      | Some (RegularFile content) \<Rightarrow> Inr content)"

text \<open>
  \<open>hashlib.sha256(...).hexdigest()\<close> is the parameter \<open>sha\<close> of every function that
  hashes.
\<close>

definition calculate_resource_sha256sum ::
  "(string \<Rightarrow> string) \<Rightarrow> filesystem \<Rightarrow> string \<Rightarrow> error + string" where
  "calculate_resource_sha256sum sha fs resource_name =
     (case read_file fs resource_name of
        Inl e \<Rightarrow> Inl e
      | Inr content \<Rightarrow> Inr (sha content))"

text \<open>
  A function that writes to the store and may raise returns, in the case of an
  exception, the exception with the store as it is at the \<open>raise\<close>.
\<close>

fun update_resource_checksums ::
  "(string \<Rightarrow> string) \<Rightarrow> filesystem \<Rightarrow> kv \<Rightarrow> string list \<Rightarrow> (error \<times> kv) + kv" where
  "update_resource_checksums sha fs db [] = Inr db"
| "update_resource_checksums sha fs db (resource # resources) =
     (if fs resource = None then update_resource_checksums sha fs db resources
      else (case calculate_resource_sha256sum sha fs resource of
              Inl e \<Rightarrow> Inl (e, db)
            | Inr s \<Rightarrow>
                update_resource_checksums sha fs
                  (db(sha256sum_key resource \<mapsto> Str s)) resources))"

definition set_resource :: "clock \<Rightarrow> datetime \<Rightarrow> kv \<Rightarrow> string \<Rightarrow> kv" where
  "set_resource clk now db resource_name =
     db(key_for resource_name \<mapsto> Float (timestamp clk now))"

definition get_resource_sha256sum :: "kv \<Rightarrow> string \<Rightarrow> kv_value option" where
  "get_resource_sha256sum db resource_name = db (sha256sum_key resource_name)"

definition get_resource_changed_timestamp ::
  "clock \<Rightarrow> kv \<Rightarrow> string \<Rightarrow> error + datetime" where
  "get_resource_changed_timestamp clk db resource_name =
     (case db (key_for resource_name) of
        Some tfloat \<Rightarrow> fromtimestamp_value clk tfloat
      | None \<Rightarrow> Inr datetime_min)"

definition checksum_changed ::
  "(string \<Rightarrow> string) \<Rightarrow> filesystem \<Rightarrow> kv \<Rightarrow> string \<Rightarrow> error + bool" where
  "checksum_changed sha fs db resource_name =
     (if \<not> truthy (get_resource_sha256sum db resource_name) then Inr True
      else (case calculate_resource_sha256sum sha fs resource_name of
              Inl e \<Rightarrow> Inl e
            | Inr new_sum \<Rightarrow>
                if get_resource_sha256sum db resource_name \<noteq> Some (Str new_sum)
                then Inr True
                else Inr False))"

text \<open>
  A list comprehension \<open>[name for name in names if p(name)]\<close> whose condition may raise:
  the first exception ends it.
\<close>

fun comprehension :: "('a \<Rightarrow> error + bool) \<Rightarrow> 'a list \<Rightarrow> error + 'a list" where
  "comprehension p [] = Inr []"
| "comprehension p (name # names) =
     (case p name of
        Inl e \<Rightarrow> Inl e
      | Inr b \<Rightarrow>
          (case comprehension p names of
             Inl e \<Rightarrow> Inl e
           | Inr rest \<Rightarrow> Inr (if b then name # rest else rest)))"

text \<open>
  \<open>acknowledged_ts\<close> of \<open>resources_changed_since_boot\<close>; \<open>boot_ts\<close> is the value of
  \<open>boot_time()\<close>. A datetime is always true in a condition.
\<close>

definition acknowledged_ts :: "datetime \<Rightarrow> datetime option \<Rightarrow> datetime" where
  "acknowledged_ts boot_ts clear_notification_ts =
     (case clear_notification_ts of
        Some c \<Rightarrow> max boot_ts c
      | None \<Rightarrow> boot_ts)"

definition time_changed ::
  "clock \<Rightarrow> kv \<Rightarrow> datetime \<Rightarrow> string list \<Rightarrow> error + string list" where
  "time_changed clk db ack resource_names =
     comprehension
       (\<lambda>name. case get_resource_changed_timestamp clk db name of
                 Inl e \<Rightarrow> Inl e
               | Inr t \<Rightarrow> Inr (ack < t))
       resource_names"

definition csum_changed ::
  "(string \<Rightarrow> string) \<Rightarrow> filesystem \<Rightarrow> kv \<Rightarrow> string list \<Rightarrow> error + string list" where
  "csum_changed sha fs db resource_names =
     comprehension (checksum_changed sha fs db) resource_names"

text \<open>
  Lines 269 to 280 of \<open>resources_changed_since_boot\<close>: the cutoff and the names
  whose change timestamp is after it.
\<close>

definition time_changed_since_boot ::
  "clock \<Rightarrow> datetime \<Rightarrow> kv \<Rightarrow> string list \<Rightarrow> error + string list" where
  "time_changed_since_boot clk boot_ts db resource_names =
     (case clear_notification_time clk db of
        Inl e \<Rightarrow> Inl e
      | Inr clear_notification_ts \<Rightarrow>
          time_changed clk db (acknowledged_ts boot_ts clear_notification_ts) resource_names)"

text \<open>
  \<open>resources_changed_since_boot\<close> returns \<open>list(changed)\<close>, the elements of a Python set
  in no specified order: the model returns the set, with the store after the call.
  The set \<open>c\<close> is passed to \<open>update_resource_checksums\<close>, which iterates over it in no
  specified order; the model iterates in the order of \<open>csum_changed\<close>. The order decides
  nothing unless a path of \<open>c\<close> is a directory, where it decides which checksums are
  stored before the exception.
\<close>

definition resources_changed_since_boot ::
  "clock \<Rightarrow> (string \<Rightarrow> string) \<Rightarrow> filesystem \<Rightarrow> datetime \<Rightarrow> kv \<Rightarrow> string list
     \<Rightarrow> (error \<times> kv) + (string set \<times> kv)" where
  "resources_changed_since_boot clk sha fs boot_ts db resource_names =
     (case time_changed_since_boot clk boot_ts db resource_names of
        Inl e \<Rightarrow> Inl (e, db)
      | Inr tc \<Rightarrow>
     (case csum_changed sha fs db resource_names of
        Inl e \<Rightarrow> Inl (e, db)
      | Inr cc \<Rightarrow>
          (let a = set tc;
               b = set cc;
               c = set cc - set tc;
               d = b - c
           in (case update_resource_checksums sha fs db
                      (remdups (filter (\<lambda>name. name \<notin> set tc) cc)) of
                 Inl (e, db') \<Rightarrow> Inl (e, db')
               | Inr db' \<Rightarrow> Inr (a \<inter> d, db')))))"

text \<open>The store a call leaves, whether it returns or raises.\<close>

fun store_after :: "(error \<times> kv) + kv \<Rightarrow> kv" where
  "store_after (Inl (e, db)) = db"
| "store_after (Inr db) = db"

section \<open>The spec's sets\<close>

text \<open>
  The sets of the specification's algorithm, written from its words, to be compared with
  what \<open>resources_changed_since_boot\<close> computes. The acknowledgment time is the value of
  \<open>clear_notification_time\<close>; the recorded \<open>changed_at\<close> of a name is the datetime its
  store entry converts to; a resource has a checksum on record when the stored value is
  true in Python's sense.
\<close>

definition spec_EffectiveCutoff :: "datetime \<Rightarrow> datetime option \<Rightarrow> datetime" where
  "spec_EffectiveCutoff boot ack = (if ack = None then boot else max boot (the ack))"

definition spec_TimeChanged :: "clock \<Rightarrow> kv \<Rightarrow> datetime \<Rightarrow> string list \<Rightarrow> string set" where
  "spec_TimeChanged clk db cutoff names =
     {n \<in> set names. \<exists>v t. db (key_for n) = Some v \<and> fromtimestamp_value clk v = Inr t \<and>
                           cutoff < t}"

definition spec_CsumChanged ::
  "(string \<Rightarrow> string) \<Rightarrow> filesystem \<Rightarrow> kv \<Rightarrow> string list \<Rightarrow> string set" where
  "spec_CsumChanged sha fs db names =
     {n \<in> set names. \<not> truthy (db (sha256sum_key n)) \<or>
        (\<exists>content. fs n = Some (RegularFile content) \<and>
                   db (sha256sum_key n) \<noteq> Some (Str (sha content)))}"

definition spec_CsumOnlyChanged :: "string set \<Rightarrow> string set \<Rightarrow> string set" where
  "spec_CsumOnlyChanged TimeChanged CsumChanged = CsumChanged - TimeChanged"

definition spec_NeedsAcknowledgment :: "string set \<Rightarrow> string set \<Rightarrow> string set" where
  "spec_NeedsAcknowledgment TimeChanged CsumChanged =
     TimeChanged \<inter> (CsumChanged - spec_CsumOnlyChanged TimeChanged CsumChanged)"

text \<open>
  The store can be read by \<open>resources_changed_since_boot\<close>: the acknowledgment entry and
  the change entries of the names convert to datetimes.
\<close>

definition timestamps_readable :: "clock \<Rightarrow> kv \<Rightarrow> string list \<Rightarrow> bool" where
  "timestamps_readable clk db names =
     ((\<exists>ack. clear_notification_time clk db = Inr ack) \<and>
      (\<forall>n\<in>set names. \<exists>t. get_resource_changed_timestamp clk db n = Inr t))"

section \<open>\<open>parse_config_flags\<close>\<close>

text \<open>
  A Python \<open>str\<close> is a list of characters; a \<open>char\<close> is a code point below 256.
  \<open>str.isspace\<close> holds of the code points 9 to 13, 28 to 32, 133 and 160 in that range,
  and \<open>str.strip()\<close> removes them from both ends.
\<close>

definition isspace :: "char \<Rightarrow> bool" where
  "isspace c = (of_char c \<in> {9, 10, 11, 12, 13, 28, 29, 30, 31, 32, 133, 160 :: nat})"

definition strip :: "string \<Rightarrow> string" where
  "strip s = rev (dropWhile isspace (rev (dropWhile isspace s)))"

definition quote :: char where
  "quote = CHR 0x22"

text \<open>
  \<open>re.split(r',(?=(?:[^"]*"[^"]*")*[^"]*$)', config_flags)\<close>: the lookahead holds at a
  comma exactly when the rest of the string has an even number of double quotes, so the
  string is split at the commas that are outside double quotes.
\<close>

fun re_split :: "string \<Rightarrow> string list" where
  "re_split [] = [[]]"
| "re_split (c # cs) =
     (if c = CHR '','' \<and> even (length (filter (\<lambda>x. x = quote) cs))
      then [] # re_split cs
      else (case re_split cs of
              [] \<Rightarrow> [[c]]
            | p # ps \<Rightarrow> (c # p) # ps))"

text \<open>
  A Python \<open>dict\<close> with string keys, in insertion order: assigning to a key that is
  present replaces its value in place.
\<close>

fun dict_set :: "('k \<times> 'v) list \<Rightarrow> 'k \<Rightarrow> 'v \<Rightarrow> ('k \<times> 'v) list" where
  "dict_set [] k v = [(k, v)]"
| "dict_set ((k', v') # d) k v =
     (if k' = k then (k, v) # d else (k', v') # dict_set d k v)"

definition dict_get :: "('k \<times> string) list \<Rightarrow> 'k \<Rightarrow> string \<Rightarrow> string" where
  "dict_get d k dflt = (case map_of d k of None \<Rightarrow> dflt | Some v \<Rightarrow> v)"

text \<open>
  The loop over \<open>enumerate(key_value_pairs)\<close>. At \<open>pair\<close>, the list \<open>rest\<close> holds the
  pairs from \<open>index + 1\<close> on; the inner \<open>while\<close> appends those before the first one that
  contains \<open>=\<close>. \<open>pair.split("=", 1)\<close> cuts at the first \<open>=\<close>.
\<close>

fun parse_pairs ::
  "string list \<Rightarrow> (string \<times> string) list \<Rightarrow> (string \<times> string) list" where
  "parse_pairs [] parsed_config_flags = parsed_config_flags"
| "parse_pairs (pair # rest) parsed_config_flags =
     (if CHR ''='' \<in> set pair then
        (let key = strip (takeWhile (\<lambda>c. c \<noteq> CHR ''='') pair);
             value = strip (tl (dropWhile (\<lambda>c. c \<noteq> CHR ''='') pair));
             value' = foldl (\<lambda>v p. v @ '','' @ p) value
                        (takeWhile (\<lambda>p. CHR ''='' \<notin> set p) rest)
         in parse_pairs rest (dict_set parsed_config_flags key value'))
      else parse_pairs rest parsed_config_flags)"

definition parse_config_flags :: "string \<Rightarrow> (string \<times> string) list" where
  "parse_config_flags config_flags = parse_pairs (re_split config_flags) []"

section \<open>UUID to LABEL rewriting\<close>

text \<open>
  \<open>s.replace(old, new)\<close>: the occurrences of \<open>old\<close> are found from left to right
  without overlap and each is replaced; an empty \<open>old\<close> matches before every character
  and at the end.
\<close>

function py_replace :: "string \<Rightarrow> string \<Rightarrow> string \<Rightarrow> string" where
  "py_replace old new s =
     (if old = [] then new @ concat (map (\<lambda>c. c # new) s)
      else if s = [] then []
      else if prefix old s then new @ py_replace old new (drop (length old) s)
      else hd s # py_replace old new (tl s))"
  by pat_completeness auto
termination
  by (relation "measure (\<lambda>(old, new, s). length s)") auto

declare py_replace.simps [simp del]

text \<open>
  \<open>_replace_uuids_with_labels\<close> (a leading underscore of the source is written as a
  trailing prime). The mapping is a \<open>dict\<close>; \<open>items()\<close> runs in insertion order.
\<close>

fun replace_uuids_with_labels' :: "string \<Rightarrow> (string \<times> string) list \<Rightarrow> string" where
  "replace_uuids_with_labels' content [] = content"
| "replace_uuids_with_labels' content ((uuid, label) # blkid_mapping) =
     replace_uuids_with_labels'
       (py_replace (''root=UUID='' @ uuid) (''root=LABEL='' @ label) content) blkid_mapping"

section \<open>\<open>SysConfigHelper\<close>\<close>

text \<open>
  The charm configuration (\<open>hookenv.config()\<close>), one field per option the module reads;
  \<open>cfg_config_flags\<close> is \<open>None\<close> when the deprecated option is absent.
\<close>

record charm_config =
  cfg_enable_container :: bool
  cfg_reservation :: string
  cfg_cpu_affinity_range :: string
  cfg_cpu_range :: string
  cfg_hugepages :: string
  cfg_hugepagesz :: string
  cfg_default_hugepagesz :: string
  cfg_isolcpus :: string
  cfg_raid_autodetection :: string
  cfg_enable_pti :: string
  cfg_enable_iommu :: bool
  cfg_enable_tsx :: bool
  cfg_grub_config_flags :: string
  cfg_systemd_config_flags :: string
  cfg_kernel_version :: string
  cfg_update_grub :: bool
  cfg_governor :: string
  cfg_resolved_cache_mode :: string
  cfg_sysctl :: string
  cfg_config_flags :: "string option"
  cfg_irqbalance_banned_cpus :: string

text \<open>A rendering context maps option names to strings, booleans or parsed flags.\<close>

datatype ctx_value = CStr string | CBool bool | CFlags "(string \<times> string) list"

type_synonym render_context = "(string \<times> ctx_value) list"

text \<open>
  What \<open>yaml.safe_load\<close> returns: \<open>None\<close>, a mapping, or another value, kept with its
  truth value only.
\<close>

datatype yaml = YamlNone | YamlMapping "(string \<times> string) list" | YamlOther bool


text \<open>
  The actions on the host, logged in the order they happen: \<open>FileWrite\<close> is a file
  rendered or written to its target, \<open>FileRemove\<close> is \<open>os.remove\<close>, \<open>SysctlLoad\<close> is
  \<open>sysctl -p\<close>. \<open>apt_update\<close> and \<open>apt_install\<close> are called without \<open>fatal\<close>,
  \<open>subprocess.call\<close> and \<open>host.service_restart\<close> return a status: none of them raises
  on failure. \<open>hookenv.log\<close> and \<open>hookenv.status_set\<close> are not modelled.
\<close>

datatype action =
    FileWrite string string
  | FileRemove string
  | ServiceRestart string
  | SystemctlMask string
  | SystemctlUnmask string
  | UpdateGrub
  | SysctlLoad string
  | AptUpdate
  | AptInstall string

record world =
  files :: filesystem
  store :: kv
  actions :: "action list"

text \<open>
  The collaborators outside the module, as values a call can depend on. A function
  that can raise has an \<open>option\<close> result, \<open>None\<close> for the exception.
  \<^item> \<open>render\<close> is the text charmhelpers' \<open>render\<close> produces from a template and a context.
  \<^item> \<open>config_flags_parser\<close> is the parser of charmhelpers, which raises \<open>OSContextError\<close>
    on a malformed value.
  \<^item> \<open>configparser\<close> is the content \<open>ConfigParser\<close> reads from a text (what \<open>!=\<close>
    compares), and \<open>empty_configparser\<close> the content of a parser that has read nothing.
  \<^item> \<open>any_file_changed\<close> is the helper of charms.reactive, which reads the files and
    keeps hashes in the store.
  \<^item> \<open>yaml_safe_load\<close> is the YAML parser; \<open>sysctl_create_other\<close> is what charmhelpers'
    \<open>sysctl.create\<close> does when its argument is not a mapping.
  \<^item> \<open>is_container\<close> and \<open>running_kernel\<close> are \<open>host.is_container()\<close> and
    \<open>os.uname().release\<close>.
  \<^item> \<open>update_grub_succeeds\<close> and \<open>sysctl_succeeds\<close> tell whether
    \<open>/usr/sbin/update-grub\<close> and \<open>sysctl -p\<close> exit with status 0.
  \<^item> \<open>float_clock\<close> holds the conversions between datetimes and floats.
\<close>

record 'cfg collaborators =
  render :: "string \<Rightarrow> render_context \<Rightarrow> string option"
  config_flags_parser :: "string \<Rightarrow> (string \<times> string) list option"
  configparser :: "string \<Rightarrow> 'cfg option"
  empty_configparser :: 'cfg
  any_file_changed :: "filesystem \<Rightarrow> kv \<Rightarrow> string list \<Rightarrow> bool \<times> kv"
  yaml_safe_load :: "string \<Rightarrow> yaml option"
  sysctl_create_other :: "world \<Rightarrow> (error \<times> world) + world"
  is_container :: bool
  running_kernel :: string
  update_grub_succeeds :: bool
  sysctl_succeeds :: bool
  float_clock :: clock

text \<open>
  A method that may raise returns, in the case of an exception, the exception with the
  world as it is at the \<open>raise\<close>.
\<close>

type_synonym outcome = "(error \<times> world) + world"

text \<open>The properties of \<open>SysConfigHelper\<close> that are more than a lookup of the option.\<close>

definition reservation :: "charm_config \<Rightarrow> string" where
  "reservation cfg = cfg_reservation cfg"

definition cpu_range :: "charm_config \<Rightarrow> string" where
  "cpu_range cfg = cfg_cpu_range cfg"


definition isolcpus :: "charm_config \<Rightarrow> string" where
  "isolcpus cfg =
     (if cfg_isolcpus cfg = [] \<and> reservation cfg = ''isolcpus'' \<and> cpu_range cfg \<noteq> []
      then cpu_range cfg
      else cfg_isolcpus cfg)"

definition grub_config_flags :: "charm_config \<Rightarrow> (string \<times> string) list" where
  "grub_config_flags cfg = parse_config_flags (cfg_grub_config_flags cfg)"


definition config_flags ::
  "'c collaborators \<Rightarrow> charm_config \<Rightarrow> error + (string \<times> string) list" where
  "config_flags ext cfg =
     (case cfg_config_flags cfg of
        None \<Rightarrow> Inr []
      | Some s \<Rightarrow>
          if s = [] then Inr []
          else (case config_flags_parser ext s of
                  None \<Rightarrow> Inl OSContextError
                | Some flags \<Rightarrow> Inr flags))"


text \<open>
  A private method \<open>_name\<close> of the source is written \<open>name'\<close>. \<open>render\<close> with a target
  writes the rendered text to the target file, which cannot be a directory;
  \<open>set_resource\<close> stamps the resource with the time \<open>now\<close> of the call.
\<close>

definition render_resource' ::
  "'c collaborators \<Rightarrow> string \<Rightarrow> string \<Rightarrow> render_context \<Rightarrow> world \<Rightarrow> outcome" where
  "render_resource' ext source target context w =
     (case render ext source context of
        None \<Rightarrow> Inl (RenderError, w)
      | Some text \<Rightarrow>
          if files w target = Some Directory then Inl (IsADirectoryError target, w)
          else Inr (w\<lparr>files := (files w)(target \<mapsto> RegularFile text),
                      actions := actions w @ [FileWrite target text]\<rparr>))"

definition render_boot_resource' ::
  "'c collaborators \<Rightarrow> datetime \<Rightarrow> string \<Rightarrow> string \<Rightarrow> render_context \<Rightarrow> world \<Rightarrow> outcome"
  where
  "render_boot_resource' ext now source target context w =
     (case render_resource' ext source target context w of
        Inl e \<Rightarrow> Inl e
      | Inr w1 \<Rightarrow> Inr (w1\<lparr>store := set_resource (float_clock ext) now (store w1) target\<rparr>))"

definition is_kernel_already_running' :: "'c collaborators \<Rightarrow> charm_config \<Rightarrow> bool" where
  "is_kernel_already_running' ext cfg = (cfg_kernel_version cfg = running_kernel ext)"

text \<open>
  \<open>_update_grub\<close> runs \<open>update-grub\<close> with \<open>subprocess.check_call\<close>, which raises when
  the command fails.
\<close>

definition update_grub' :: "'c collaborators \<Rightarrow> charm_config \<Rightarrow> world \<Rightarrow> outcome" where
  "update_grub' ext cfg w =
     (if cfg_update_grub cfg \<and> \<not> is_container ext then
        (if update_grub_succeeds ext then Inr (w\<lparr>actions := actions w @ [UpdateGrub]\<rparr>)
         else Inl (CalledProcessError, w))
      else Inr w)"

text \<open>
  \<open>_assemble_grub_context\<close>. The deprecated \<open>config-flags\<close> option is parsed only when
  \<open>grub-config-flags\<close> gives no flags.
\<close>

definition assemble_grub_context' ::
  "'c collaborators \<Rightarrow> charm_config \<Rightarrow> error + render_context" where
  "assemble_grub_context' ext cfg =
     (let context = [];
          context = foldl (\<lambda>ctx (attr, val). if val \<noteq> [] then dict_set ctx attr (CStr val) else ctx)
                      context
                      [(''isolcpus'', isolcpus cfg), (''hugepages'', cfg_hugepages cfg),
                       (''hugepagesz'', cfg_hugepagesz cfg),
                       (''default_hugepagesz'', cfg_default_hugepagesz cfg)];
          context = (if cfg_raid_autodetection cfg \<noteq> []
                     then dict_set context ''raid'' (CStr (cfg_raid_autodetection cfg))
                     else context);
          context = (if cfg_enable_pti cfg \<noteq> [] \<and> cfg_enable_pti cfg \<in> set [''on'', ''off'']
                     then dict_set context ''enable_pti'' (CStr (cfg_enable_pti cfg))
                     else context);
          context = (if cfg_enable_iommu cfg then dict_set context ''iommu'' (CBool True)
                     else context);
          context = (if cfg_enable_tsx cfg then dict_set context ''tsx'' (CBool True)
                     else context)
      in case (if grub_config_flags cfg \<noteq> [] then Inr (grub_config_flags cfg)
               else (case config_flags ext cfg of
                       Inl e \<Rightarrow> Inl e
                     | Inr flags \<Rightarrow> Inr (parse_config_flags (dict_get flags ''grub'' '''')))) of
           Inl e \<Rightarrow> Inl e
         | Inr grub_flags \<Rightarrow>
             (let context = dict_set context ''grub_config_flags'' (CFlags grub_flags);
                  context = (if cfg_kernel_version cfg \<noteq> [] \<and>
                                \<not> is_kernel_already_running' ext cfg
                             then dict_set context ''grub_default''
                                    (CStr (GRUB_DEFAULT (cfg_kernel_version cfg)))
                             else context)
              in Inr context))"

definition update_grub_file ::
  "'c collaborators \<Rightarrow> charm_config \<Rightarrow> datetime \<Rightarrow> world \<Rightarrow> outcome" where
  "update_grub_file ext cfg now w =
     (case assemble_grub_context' ext cfg of
        Inl e \<Rightarrow> Inl (e, w)
      | Inr context \<Rightarrow>
          (case render_boot_resource' ext now GRUB_CONF_TMPL GRUB_CONF context w of
             Inl e \<Rightarrow> Inl e
           | Inr w1 \<Rightarrow> update_grub' ext cfg w1))"








definition install_configured_kernel ::
  "'c collaborators \<Rightarrow> charm_config \<Rightarrow> datetime \<Rightarrow> world \<Rightarrow> world" where
  "install_configured_kernel ext cfg now w =
     (let configured = cfg_kernel_version cfg in
      if configured = [] then w
      else
        (let w1 = w\<lparr>actions := actions w @ [AptUpdate]\<rparr>;
             w2 = w1\<lparr>actions := actions w1 @ [AptInstall (''linux-modules-extra-'' @ configured)]\<rparr>
         in if is_kernel_already_running' ext cfg then w2
            else
              (let w3 = w2\<lparr>actions := actions w2 @ [AptInstall (''linux-image-'' @ configured)]\<rparr>
               in w3\<lparr>store := set_resource (float_clock ext) now (store w3) KERNEL\<rparr>)))"



text \<open>
  \<open>remove_grub_configuration\<close> deletes the grub file when the path exists; \<open>os.remove\<close>
  of a directory raises.
\<close>

definition remove_grub_configuration ::
  "'c collaborators \<Rightarrow> charm_config \<Rightarrow> datetime \<Rightarrow> world \<Rightarrow> outcome" where
  "remove_grub_configuration ext cfg now w =
     (case files w GRUB_CONF of
        None \<Rightarrow> Inr w
      | Some Directory \<Rightarrow> Inl (IsADirectoryError GRUB_CONF, w)
      | Some (RegularFile text) \<Rightarrow>
          (let w1 = w\<lparr>files := (files w)(GRUB_CONF := None),
                       actions := actions w @ [FileRemove GRUB_CONF]\<rparr>
           in case update_grub' ext cfg w1 of
                Inl e \<Rightarrow> Inl e
              | Inr w2 \<Rightarrow>
                  Inr (w2\<lparr>store := set_resource (float_clock ext) now (store w2) GRUB_CONF\<rparr>)))"

section \<open>Actions of a call, and a sample host\<close>

text \<open>The actions logged between the world \<open>w\<close> before a call and \<open>w'\<close> after it.\<close>

definition performed :: "world \<Rightarrow> world \<Rightarrow> action list" where
  "performed w w' = drop (length (actions w)) (actions w')"



text \<open>A stand-in for the digest in the examples.\<close>

definition example_sha :: "string \<Rightarrow> string" where
  "example_sha content = ''d:'' @ content"

text \<open>
  A clock for the examples: the float of an instant is its distance from the epoch in
  seconds, and a float converts back to the microsecond it denotes. Python's conversions
  agree with it at the instants of the examples, whole seconds of the year 2026, whose
  floats are exact.
\<close>

definition example_timestamp :: "datetime \<Rightarrow> rat" where
  "example_timestamp t = (of_nat t - of_nat EPOCH) / 1000000"

definition example_fromtimestamp :: "rat \<Rightarrow> error + datetime" where
  "example_fromtimestamp x =
     (if x * 1000000 + of_nat EPOCH < 0 then Inl ValueError
      else Inr (nat \<lfloor>x * 1000000 + of_nat EPOCH\<rfloor>))"

definition example_clock :: clock where
  "example_clock = \<lparr>timestamp = example_timestamp, fromtimestamp = example_fromtimestamp\<rparr>"

text \<open>
  Three instants of 1 January 2026, a minute apart, as microseconds since
  \<open>datetime.min\<close>; their floats are 1767225600, 1767225660 and 1767225720.
\<close>

definition T_2026 :: datetime where
  "T_2026 = 63902822400000000"

definition T_2026_1 :: datetime where
  "T_2026_1 = 63902822460000000"

definition T_2026_2 :: datetime where
  "T_2026_2 = 63902822520000000"

text \<open>
  A host for the examples: the rendered text names the template and the keys of the
  context, \<open>ConfigParser\<close> content is the text itself, the machine is not a container
  and runs the configured kernel.
\<close>

definition example_render :: "string \<Rightarrow> render_context \<Rightarrow> string option" where
  "example_render source ctx = Some (source @ '':'' @ concat (map fst ctx))"

definition example_parser :: "string \<Rightarrow> (string \<times> string) list option" where
  "example_parser s = Some []"

definition example_configparser :: "string \<Rightarrow> string option" where
  "example_configparser text = Some text"

text \<open>
  \<open>any_file_changed\<close> compares the digest of each file with the one it stored at the
  last call and stores the new one.
\<close>

definition example_file_hash :: "filesystem \<Rightarrow> string \<Rightarrow> kv_value option" where
  "example_file_hash fs path =
     (case fs path of
        Some (RegularFile content) \<Rightarrow> Some (Str (example_sha content))
      | _ \<Rightarrow> None)"

definition example_any_file_changed ::
  "filesystem \<Rightarrow> kv \<Rightarrow> string list \<Rightarrow> bool \<times> kv" where
  "example_any_file_changed fs db names =
     (let changed = filter (\<lambda>path. db (''reactive.files_changed.'' @ path)
                                      \<noteq> example_file_hash fs path) names
      in (changed \<noteq> [],
          foldl (\<lambda>d path. d(''reactive.files_changed.'' @ path := example_file_hash fs path))
            db changed))"

definition example_yaml_safe_load :: "string \<Rightarrow> yaml option" where
  "example_yaml_safe_load s = Some (YamlMapping [(''vm.swappiness'', ''10'')])"

definition example_collaborators :: "string collaborators" where
  "example_collaborators =
     \<lparr>render = example_render,
      config_flags_parser = example_parser,
      configparser = example_configparser,
      empty_configparser = [],
      any_file_changed = example_any_file_changed,
      yaml_safe_load = example_yaml_safe_load,
      sysctl_create_other = Inr,
      is_container = False,
      running_kernel = ''5.15.0-91-generic'',
      update_grub_succeeds = True,
      sysctl_succeeds = True,
      float_clock = example_clock\<rparr>"

definition example_config :: charm_config where
  "example_config =
     \<lparr>cfg_enable_container = False,
      cfg_reservation = ''off'',
      cfg_cpu_affinity_range = ''0-3'',
      cfg_cpu_range = [],
      cfg_hugepages = [],
      cfg_hugepagesz = [],
      cfg_default_hugepagesz = [],
      cfg_isolcpus = [],
      cfg_raid_autodetection = [],
      cfg_enable_pti = [],
      cfg_enable_iommu = False,
      cfg_enable_tsx = False,
      cfg_grub_config_flags = [],
      cfg_systemd_config_flags = [],
      cfg_kernel_version = ''5.15.0-91-generic'',
      cfg_update_grub = True,
      cfg_governor = ''performance'',
      cfg_resolved_cache_mode = [],
      cfg_sysctl = ''vm.swappiness: 10'',
      cfg_config_flags = None,
      cfg_irqbalance_banned_cpus = ''0-1''\<rparr>"

definition empty_world :: world where
  "empty_world = \<lparr>files = Map.empty, store = Map.empty, actions = []\<rparr>"

text \<open>
  The grub file through its life on the sample host: written by \<open>update_grub_file\<close> at
  the first instant, its checksum recorded by a query after a reboot at the second, and
  removed by \<open>remove_grub_configuration\<close> at the third.
\<close>

definition example_grub_world_written :: world where
  "example_grub_world_written =
     \<lparr>files = [GRUB_CONF \<mapsto> RegularFile ''grub.j2:grub_config_flags''],
      store = [key_for GRUB_CONF \<mapsto> Float 1767225600],
      actions = [FileWrite GRUB_CONF ''grub.j2:grub_config_flags'', UpdateGrub]\<rparr>"

definition example_grub_store_queried :: kv where
  "example_grub_store_queried =
     [key_for GRUB_CONF \<mapsto> Float 1767225600,
      sha256sum_key GRUB_CONF \<mapsto> Str ''d:grub.j2:grub_config_flags'']"

definition example_grub_world_removed :: world where
  "example_grub_world_removed =
     \<lparr>files = Map.empty,
      store = [key_for GRUB_CONF \<mapsto> Float 1767225600,
               sha256sum_key GRUB_CONF \<mapsto> Str ''d:grub.j2:grub_config_flags'',
               key_for GRUB_CONF \<mapsto> Float 1767225720],
      actions = [FileWrite GRUB_CONF ''grub.j2:grub_config_flags'', UpdateGrub,
                 FileRemove GRUB_CONF, UpdateGrub]\<rparr>"

text \<open>
  A store in which the checksum of the systemd file has drifted (the file holds \<open>cur\<close>)
  and the grub file, with a checksum on record, is gone.
\<close>

definition example_drift_files :: filesystem where
  "example_drift_files = [SYSTEMD_SYSTEM \<mapsto> RegularFile ''cur'']"

definition example_drift_store :: kv where
  "example_drift_store =
     [key_for SYSTEMD_SYSTEM \<mapsto> Float 1767225600,
      sha256sum_key SYSTEMD_SYSTEM \<mapsto> Str ''d:old'',
      sha256sum_key GRUB_CONF \<mapsto> Str ''d:old'']"






section \<open>Facts about the store keys and the loops\<close>

lemma sha256sum_key_inject [simp]: "(sha256sum_key a = sha256sum_key b) = (a = b)"
  by (simp add: sha256sum_key_def key_for_def)

lemma key_for_eq_sha256sum_key: "(key_for r = sha256sum_key m) = (r = m @ ''.sha256sum'')"
  by (simp add: sha256sum_key_def key_for_def)

lemma key_for_not_sha256sum_key:
  "\<not> suffix ''.sha256sum'' r \<Longrightarrow> key_for r \<noteq> sha256sum_key m"
  by (auto simp: key_for_eq_sha256sum_key suffix_def)

lemma module_resources_no_sha256sum_suffix:
  "r \<in> set module_resources \<Longrightarrow> \<not> suffix ''.sha256sum'' r"
  by (auto simp: module_resources_def CPUFREQUTILS_def GRUB_CONF_def SYSTEMD_SYSTEM_def
        SYSTEMD_RESOLVED_def SYSCTL_CONF_def KERNEL_def IRQBALANCE_CONF_def suffix_to_prefix)

lemma clear_key_not_resource [simp]:
  "key_for r \<noteq> ''clear-notification-timestamp''" "''clear-notification-timestamp'' \<noteq> key_for r"
  by (simp_all add: key_for_def)

lemma comprehension_total:
  "\<forall>x\<in>set xs. \<exists>b. p x = Inr b \<Longrightarrow> comprehension p xs = Inr (filter (\<lambda>x. p x = Inr True) xs)"
  by (induction xs) auto

lemma comprehension_raises:
  "x \<in> set xs \<Longrightarrow> p x = Inl e \<Longrightarrow> \<exists>e'. comprehension p xs = Inl e'"
  by (induction xs) (auto split: sum.splits)

lemma comprehension_error_source:
  "comprehension p xs = Inl e \<Longrightarrow> \<exists>x\<in>set xs. p x = Inl e"
  by (induction xs) (auto split: sum.splits)

lemma update_resource_checksums_other:
  "\<forall>n\<in>set xs. fs n \<noteq> None \<longrightarrow> k \<noteq> sha256sum_key n \<Longrightarrow>
   store_after (update_resource_checksums sha fs db xs) k = db k"
  by (induction xs arbitrary: db) (auto split: sum.splits)

lemma update_resource_checksums_returns:
  "\<forall>n\<in>set xs. fs n \<noteq> Some Directory \<Longrightarrow>
   \<exists>db'. update_resource_checksums sha fs db xs = Inr db'"
proof (induction xs arbitrary: db)
  case Nil
  then show ?case by simp
next
  case (Cons x xs)
  show ?case
  proof (cases "fs x")
    case None
    with Cons show ?thesis by simp
  next
    case (Some entry)
    with Cons.prems obtain content where "fs x = Some (RegularFile content)"
      by (cases entry) auto
    with Cons show ?thesis
      by (simp add: calculate_resource_sha256sum_def read_file_def)
  qed
qed

lemma update_resource_checksums_stored:
  "update_resource_checksums sha fs db xs = Inr db' \<Longrightarrow> n \<in> set xs \<Longrightarrow>
   fs n = Some (RegularFile c) \<Longrightarrow> db' (sha256sum_key n) = Some (Str (sha c))"
proof (induction xs arbitrary: db)
  case Nil
  then show ?case by simp
next
  case (Cons x xs)
  show ?case
  proof (cases "n \<in> set xs")
    case True
    with Cons show ?thesis
      by (auto split: if_splits sum.splits)
  next
    case False
    with Cons.prems have nx: "n = x" by simp
    from Cons.prems nx
    have step: "update_resource_checksums sha fs (db(sha256sum_key n \<mapsto> Str (sha c))) xs = Inr db'"
      by (simp add: calculate_resource_sha256sum_def read_file_def)
    have "\<forall>m\<in>set xs. fs m \<noteq> None \<longrightarrow> sha256sum_key n \<noteq> sha256sum_key m"
      using False by auto
    from update_resource_checksums_other [OF this, of sha "db(sha256sum_key n \<mapsto> Str (sha c))"]
    show ?thesis using step by simp
  qed
qed

text \<open>Without a directory among the paths, the order of the names decides nothing.\<close>

lemma update_resource_checksums_set_cong:
  assumes eq: "set xs = set ys" and nd: "\<forall>n\<in>set xs. fs n \<noteq> Some Directory"
  shows "update_resource_checksums sha fs db xs = update_resource_checksums sha fs db ys"
proof -
  obtain d1 where d1: "update_resource_checksums sha fs db xs = Inr d1"
    using update_resource_checksums_returns [OF nd] by blast
  from nd eq have "\<forall>n\<in>set ys. fs n \<noteq> Some Directory" by simp
  then obtain d2 where d2: "update_resource_checksums sha fs db ys = Inr d2"
    using update_resource_checksums_returns by blast
  have "d1 k = d2 k" for k
  proof (cases "\<exists>n\<in>set xs. fs n \<noteq> None \<and> k = sha256sum_key n")
    case True
    then obtain n e where n: "n \<in> set xs" "fs n = Some e" "k = sha256sum_key n" by auto
    with nd obtain c where "fs n = Some (RegularFile c)" by (cases e) auto
    with n show ?thesis
      using update_resource_checksums_stored [OF d1, of n c]
            update_resource_checksums_stored [OF d2, of n c] eq by simp
  next
    case False
    then have no: "\<forall>n\<in>set xs. fs n \<noteq> None \<longrightarrow> k \<noteq> sha256sum_key n" by blast
    then have no': "\<forall>n\<in>set ys. fs n \<noteq> None \<longrightarrow> k \<noteq> sha256sum_key n" using eq by simp
    show ?thesis
      using update_resource_checksums_other [OF no, of sha db]
            update_resource_checksums_other [OF no', of sha db] d1 d2 by simp
  qed
  then have "d1 = d2" by (rule ext)
  with d1 d2 show ?thesis by simp
qed

lemma checksum_changed_error:
  "checksum_changed sha fs db n = Inl e \<Longrightarrow>
     truthy (db (sha256sum_key n)) \<and>
     ((fs n = None \<and> e = FileNotFoundError n) \<or>
      (fs n = Some Directory \<and> e = IsADirectoryError n))"
  by (auto simp: checksum_changed_def get_resource_sha256sum_def
        calculate_resource_sha256sum_def read_file_def
        split: option.splits if_splits fs_entry.splits)

lemma checksum_changed_value:
  "(checksum_changed sha fs db n = Inr True) =
     (\<not> truthy (db (sha256sum_key n)) \<or>
      (\<exists>content. fs n = Some (RegularFile content) \<and>
                 db (sha256sum_key n) \<noteq> Some (Str (sha content))))"
  by (auto simp: checksum_changed_def get_resource_sha256sum_def
        calculate_resource_sha256sum_def read_file_def
        split: option.splits fs_entry.splits)

text \<open>
  What \<open>resources_changed_since_boot\<close> returns when nothing stops it: the timestamps
  of the store convert to datetimes, no listed path is a directory, and every listed
  resource with a checksum on record has its file.
\<close>

lemma time_changed_since_boot_value:
  assumes ack: "clear_notification_time clk db = Inr ack"
      and ts: "\<forall>n\<in>set names. \<exists>t. get_resource_changed_timestamp clk db n = Inr t"
  shows "\<exists>tc. time_changed_since_boot clk boot_ts db names = Inr tc \<and>
              set tc = spec_TimeChanged clk db (spec_EffectiveCutoff boot_ts ack) names"
proof -
  let ?cut = "acknowledged_ts boot_ts ack"
  let ?p = "\<lambda>name. case get_resource_changed_timestamp clk db name of
                 Inl e \<Rightarrow> Inl e | Inr t \<Rightarrow> Inr (?cut < t)"
  have cut: "?cut = spec_EffectiveCutoff boot_ts ack"
    by (cases ack) (simp_all add: acknowledged_ts_def spec_EffectiveCutoff_def)
  have val: "?p n = Inr (\<exists>v t. db (key_for n) = Some v \<and> fromtimestamp_value clk v = Inr t \<and>
                             ?cut < t)"
    if "n \<in> set names" for n
  proof (cases "db (key_for n)")
    case None
    then show ?thesis by (simp add: get_resource_changed_timestamp_def datetime_min_def)
  next
    case (Some v)
    from ts that obtain t where "get_resource_changed_timestamp clk db n = Inr t" by blast
    with Some show ?thesis by (simp add: get_resource_changed_timestamp_def)
  qed
  then have "\<forall>n\<in>set names. \<exists>b. ?p n = Inr b" by blast
  from comprehension_total [OF this]
  have tc: "time_changed clk db ?cut names = Inr (filter (\<lambda>n. ?p n = Inr True) names)"
    by (simp add: time_changed_def)
  have "set (filter (\<lambda>n. ?p n = Inr True) names) = spec_TimeChanged clk db ?cut names"
    using val by (auto simp: spec_TimeChanged_def)
  with tc ack cut show ?thesis by (simp add: time_changed_since_boot_def)
qed

lemma csum_changed_value:
  assumes present: "\<forall>n\<in>set names. truthy (db (sha256sum_key n)) \<longrightarrow>
                      (\<exists>content. fs n = Some (RegularFile content))"
  shows "\<exists>cc. csum_changed sha fs db names = Inr cc \<and> set cc = spec_CsumChanged sha fs db names"
proof -
  let ?p = "checksum_changed sha fs db"
  have val: "\<exists>b. ?p n = Inr b" if "n \<in> set names" for n
  proof (cases "?p n")
    case (Inl e)
    from checksum_changed_error [OF Inl] present that show ?thesis by auto
  next
    case (Inr b)
    then show ?thesis by blast
  qed
  then have "\<forall>n\<in>set names. \<exists>b. ?p n = Inr b" by blast
  from comprehension_total [OF this]
  have cc: "csum_changed sha fs db names = Inr (filter (\<lambda>n. ?p n = Inr True) names)"
    by (simp add: csum_changed_def)
  have "set (filter (\<lambda>n. ?p n = Inr True) names) = spec_CsumChanged sha fs db names"
    by (simp add: spec_CsumChanged_def checksum_changed_value)
  with cc show ?thesis by simp
qed

lemma resources_changed_since_boot_value:
  assumes ack: "clear_notification_time clk db = Inr ack"
      and ts: "\<forall>n\<in>set names. \<exists>t. get_resource_changed_timestamp clk db n = Inr t"
      and present: "\<forall>n\<in>set names. truthy (db (sha256sum_key n)) \<longrightarrow>
                      (\<exists>content. fs n = Some (RegularFile content))"
      and nodir: "\<forall>n\<in>set names. fs n \<noteq> Some Directory"
  shows "\<exists>upd db'. set upd = spec_CsumChanged sha fs db names
                       - spec_TimeChanged clk db (spec_EffectiveCutoff boot_ts ack) names \<and>
           update_resource_checksums sha fs db upd = Inr db' \<and>
           resources_changed_since_boot clk sha fs boot_ts db names =
             Inr (spec_NeedsAcknowledgment
                    (spec_TimeChanged clk db (spec_EffectiveCutoff boot_ts ack) names)
                    (spec_CsumChanged sha fs db names), db')"
proof -
  from time_changed_since_boot_value [OF ack ts, where boot_ts = boot_ts]
  obtain tc where tc: "time_changed_since_boot clk boot_ts db names = Inr tc"
    "set tc = spec_TimeChanged clk db (spec_EffectiveCutoff boot_ts ack) names" by blast
  from csum_changed_value [OF present, where sha = sha]
  obtain cc where cc: "csum_changed sha fs db names = Inr cc"
    "set cc = spec_CsumChanged sha fs db names" by blast
  let ?upd = "remdups (filter (\<lambda>name. name \<notin> set tc) cc)"
  have s: "set ?upd = set cc - set tc" by auto
  have "set ?upd \<subseteq> set names" using s cc(2) by (auto simp: spec_CsumChanged_def)
  with nodir have "\<forall>n\<in>set ?upd. fs n \<noteq> Some Directory" by blast
  then obtain db' where d: "update_resource_checksums sha fs db ?upd = Inr db'"
    using update_resource_checksums_returns by blast
  have "resources_changed_since_boot clk sha fs boot_ts db names =
          Inr (set tc \<inter> (set cc - (set cc - set tc)), db')"
    using tc(1) cc(1) d by (simp add: resources_changed_since_boot_def Let_def)
  then have "resources_changed_since_boot clk sha fs boot_ts db names =
          Inr (spec_NeedsAcknowledgment (set tc) (set cc), db')"
    by (simp add: spec_NeedsAcknowledgment_def spec_CsumOnlyChanged_def)
  with s d tc(2) cc(2) show ?thesis by metis
qed

text \<open>
  The checksum catch-up, when nothing stops the call: a listed resource whose checksum
  has drifted and whose change is not after the cutoff is left out of the result, and
  the digest of its present content is stored.
\<close>

lemma resources_changed_since_boot_catch_up:
  assumes ack: "clear_notification_time clk db = Inr ack"
      and ts: "\<forall>n\<in>set names. \<exists>t. get_resource_changed_timestamp clk db n = Inr t"
      and present: "\<forall>n\<in>set names. truthy (db (sha256sum_key n)) \<longrightarrow>
                      (\<exists>content. fs n = Some (RegularFile content))"
      and nodir: "\<forall>n\<in>set names. fs n \<noteq> Some Directory"
      and r: "r \<in> spec_CsumChanged sha fs db names"
      and old: "r \<notin> spec_TimeChanged clk db (spec_EffectiveCutoff boot_ts ack) names"
  shows "\<exists>changed db'.
           resources_changed_since_boot clk sha fs boot_ts db names = Inr (changed, db') \<and>
           r \<notin> changed \<and>
           (\<forall>content. fs r = Some (RegularFile content) \<longrightarrow>
              db' (sha256sum_key r) = Some (Str (sha content))) \<and>
           (fs r = None \<longrightarrow> db' (sha256sum_key r) = db (sha256sum_key r))"
proof -
  let ?T = "spec_TimeChanged clk db (spec_EffectiveCutoff boot_ts ack) names"
  let ?C = "spec_CsumChanged sha fs db names"
  from resources_changed_since_boot_value [OF ack ts present nodir,
         where boot_ts = boot_ts and sha = sha]
  obtain upd db' where u: "set upd = ?C - ?T"
    and d: "update_resource_checksums sha fs db upd = Inr db'"
    and res: "resources_changed_since_boot clk sha fs boot_ts db names
                = Inr (spec_NeedsAcknowledgment ?T ?C, db')"
    by blast
  have ru: "r \<in> set upd" using u r old by simp
  have st: "db' (sha256sum_key r) = Some (Str (sha content))"
    if "fs r = Some (RegularFile content)" for content
    using update_resource_checksums_stored [OF d ru that] .
  have keep: "db' (sha256sum_key r) = db (sha256sum_key r)" if "fs r = None"
  proof -
    from that have "\<forall>n\<in>set upd. fs n \<noteq> None \<longrightarrow> sha256sum_key r \<noteq> sha256sum_key n"
      by auto
    from update_resource_checksums_other [OF this, of sha db] d show ?thesis by simp
  qed
  have "r \<notin> spec_NeedsAcknowledgment ?T ?C"
    using old by (simp add: spec_NeedsAcknowledgment_def)
  with res st keep show ?thesis by auto
qed

lemmas brs_defs =
  resources_changed_since_boot_def time_changed_since_boot_def time_changed_def
  csum_changed_def checksum_changed_def get_resource_sha256sum_def
  get_resource_changed_timestamp_def calculate_resource_sha256sum_def read_file_def
  clear_notification_time_def acknowledged_ts_def sha256sum_key_def key_for_def
  datetime_min_def

lemmas example_clock_defs =
  example_clock_def example_timestamp_def example_fromtimestamp_def EPOCH_def
  T_2026_def T_2026_1_def T_2026_2_def


section \<open>Checksum drift\<close>

text \<open>
  C5. \<open>checksum_changed(name)\<close> returns true if and only if no checksum is on record for
  \<open>name\<close> (the stored value is absent or empty, Python's \<open>not\<close>), or the digest of the
  resource's present content differs from the recorded value. When the store does not
  hold an empty value for the name, no checksum on record means no entry at all. With no
  entry the function returns true.
\<close>

theorem checksum_changed_iff:
  "(checksum_changed sha fs db name = Inr True) =
     (\<not> truthy (db (sha256sum_key name)) \<or>
      (\<exists>content. fs name = Some (RegularFile content) \<and>
                 db (sha256sum_key name) \<noteq> Some (Str (sha content))))
   \<and> (db (sha256sum_key name) \<noteq> Some (Str []) \<and> db (sha256sum_key name) \<noteq> Some (Float 0)
        \<longrightarrow> (checksum_changed sha fs db name = Inr True) =
            (db (sha256sum_key name) = None \<or>
             (\<exists>content. fs name = Some (RegularFile content) \<and>
                        db (sha256sum_key name) \<noteq> Some (Str (sha content)))))
   \<and> (db (sha256sum_key name) = None \<longrightarrow> checksum_changed sha fs db name = Inr True)"
proof -
  have t: "truthy v = (v \<noteq> None \<and> v \<noteq> Some (Str []) \<and> v \<noteq> Some (Float 0))" for v
    by (cases v rule: truthy.cases) auto
  from checksum_changed_value [of sha fs db name] t show ?thesis by auto
qed

theorem checksum_changed_iff_witness:
  "checksum_changed example_sha Map.empty Map.empty KERNEL = Inr True
   \<and> checksum_changed example_sha [GRUB_CONF \<mapsto> RegularFile ''new'']
        [sha256sum_key GRUB_CONF \<mapsto> Str ''d:old''] GRUB_CONF = Inr True"
  using checksum_changed_iff [of example_sha Map.empty Map.empty KERNEL]
        checksum_changed_iff [of example_sha "[GRUB_CONF \<mapsto> RegularFile ''new'']"
          "[sha256sum_key GRUB_CONF \<mapsto> Str ''d:old'']" GRUB_CONF]
  by (simp add: example_sha_def)

text \<open>
  C10. \<open>checksum_changed\<close> is asymmetric on a missing backing file. With no checksum on
  record it returns true without opening the file, whatever the file system holds. With
  a checksum on record and the file absent it raises \<open>FileNotFoundError\<close>, and
  \<open>resources_changed_since_boot\<close> raises on every list that contains the resource. When
  the timestamps of the store are readable the exception is the file-read error of a
  listed resource and the store is as before the call; it is a \<open>FileNotFoundError\<close> when
  no listed path is a directory.
\<close>

theorem checksum_changed_missing_file:
  "(\<not> truthy (db (sha256sum_key name)) \<longrightarrow> checksum_changed sha fs db name = Inr True) \<and>
   (truthy (db (sha256sum_key name)) \<and> fs name = None \<longrightarrow>
      checksum_changed sha fs db name = Inl (FileNotFoundError name) \<and>
      (\<forall>names boot_ts clk. name \<in> set names \<longrightarrow>
         (\<exists>e. resources_changed_since_boot clk sha fs boot_ts db names = Inl e) \<and>
         (timestamps_readable clk db names \<longrightarrow>
            (\<exists>m\<in>set names.
               resources_changed_since_boot clk sha fs boot_ts db names
                 = Inl (FileNotFoundError m, db) \<or>
               resources_changed_since_boot clk sha fs boot_ts db names
                 = Inl (IsADirectoryError m, db))) \<and>
         (timestamps_readable clk db names \<and> (\<forall>n\<in>set names. fs n \<noteq> Some Directory) \<longrightarrow>
            (\<exists>m\<in>set names.
               resources_changed_since_boot clk sha fs boot_ts db names
                 = Inl (FileNotFoundError m, db)))))"
proof -
  have p1: "\<not> truthy (db (sha256sum_key name)) \<Longrightarrow> checksum_changed sha fs db name = Inr True"
    by (simp add: checksum_changed_def get_resource_sha256sum_def)
  have p2: "checksum_changed sha fs db name = Inl (FileNotFoundError name)"
    if "truthy (db (sha256sum_key name))" "fs name = None"
    using that by (simp add: checksum_changed_def get_resource_sha256sum_def
        calculate_resource_sha256sum_def read_file_def)
  have p3: "\<exists>e. resources_changed_since_boot clk sha fs boot_ts db names = Inl e"
    if t: "truthy (db (sha256sum_key name))" "fs name = None" and m: "name \<in> set names"
    for names boot_ts clk
  proof -
    obtain e where "csum_changed sha fs db names = Inl e"
      using comprehension_raises [of name names "checksum_changed sha fs db", OF m p2 [OF t]]
      by (auto simp: csum_changed_def)
    then show ?thesis
      by (simp add: resources_changed_since_boot_def split: sum.splits)
  qed
  have p4: "\<exists>x\<in>set names. \<exists>e.
              resources_changed_since_boot clk sha fs boot_ts db names = Inl (e, db) \<and>
              ((fs x = None \<and> e = FileNotFoundError x) \<or>
               (fs x = Some Directory \<and> e = IsADirectoryError x))"
    if t: "truthy (db (sha256sum_key name))" "fs name = None" and m: "name \<in> set names"
      and r: "timestamps_readable clk db names"
    for names boot_ts clk
  proof -
    obtain e where e: "csum_changed sha fs db names = Inl e"
      using comprehension_raises [of name names "checksum_changed sha fs db", OF m p2 [OF t]]
      by (auto simp: csum_changed_def)
    then obtain x where x: "x \<in> set names" "checksum_changed sha fs db x = Inl e"
      using comprehension_error_source [of "checksum_changed sha fs db" names e]
      by (auto simp: csum_changed_def)
    from checksum_changed_error [OF x(2)]
    have ex: "(fs x = None \<and> e = FileNotFoundError x) \<or>
              (fs x = Some Directory \<and> e = IsADirectoryError x)" by blast
    from r obtain ack where ack: "clear_notification_time clk db = Inr ack"
      by (auto simp: timestamps_readable_def)
    from r have "\<forall>n\<in>set names. \<exists>b.
        (case get_resource_changed_timestamp clk db n of Inl e \<Rightarrow> Inl e
         | Inr t \<Rightarrow> Inr (acknowledged_ts boot_ts ack < t)) = Inr b"
      by (auto simp: timestamps_readable_def)
    from comprehension_total [OF this]
    obtain tc where tc: "time_changed clk db (acknowledged_ts boot_ts ack) names = Inr tc"
      by (auto simp: time_changed_def)
    have "resources_changed_since_boot clk sha fs boot_ts db names = Inl (e, db)"
      using ack tc e
      by (simp add: resources_changed_since_boot_def time_changed_since_boot_def)
    with x(1) ex show ?thesis by blast
  qed
  have p5: "\<exists>m\<in>set names.
               resources_changed_since_boot clk sha fs boot_ts db names
                 = Inl (FileNotFoundError m, db) \<or>
               resources_changed_since_boot clk sha fs boot_ts db names
                 = Inl (IsADirectoryError m, db)"
    if "truthy (db (sha256sum_key name))" "fs name = None" "name \<in> set names"
       "timestamps_readable clk db names"
    for names boot_ts clk
    using p4 [OF that, of boot_ts] by metis
  have p6: "\<exists>m\<in>set names.
               resources_changed_since_boot clk sha fs boot_ts db names
                 = Inl (FileNotFoundError m, db)"
    if "truthy (db (sha256sum_key name))" "fs name = None" "name \<in> set names"
       "timestamps_readable clk db names" "\<forall>n\<in>set names. fs n \<noteq> Some Directory"
    for names boot_ts clk
    using p4 [OF that(1-4), of boot_ts] that(5) by metis
  from p1 p2 p3 p5 p6 show ?thesis by blast
qed

theorem checksum_changed_missing_file_witness:
  "checksum_changed example_sha Map.empty Map.empty KERNEL = Inr True \<and>
   checksum_changed example_sha Map.empty
      [sha256sum_key GRUB_CONF \<mapsto> Str ''d:old''] GRUB_CONF
     = Inl (FileNotFoundError GRUB_CONF) \<and>
   (\<exists>m\<in>set [KERNEL, GRUB_CONF].
      resources_changed_since_boot example_clock example_sha Map.empty T_2026
        [sha256sum_key GRUB_CONF \<mapsto> Str ''d:old''] [KERNEL, GRUB_CONF]
      = Inl (FileNotFoundError m, [sha256sum_key GRUB_CONF \<mapsto> Str ''d:old'']))"
proof -
  let ?db = "[sha256sum_key GRUB_CONF \<mapsto> Str ''d:old'']"
  have r: "timestamps_readable example_clock ?db [KERNEL, GRUB_CONF]"
    by (simp add: timestamps_readable_def clear_notification_time_def
          get_resource_changed_timestamp_def sha256sum_key_def key_for_def
          KERNEL_def GRUB_CONF_def)
  have t: "truthy (?db (sha256sum_key GRUB_CONF))" "Map.empty GRUB_CONF = None"
    by simp_all
  have g: "GRUB_CONF \<in> set [KERNEL, GRUB_CONF]" by simp
  have d: "\<forall>n\<in>set [KERNEL, GRUB_CONF]. (Map.empty :: filesystem) n \<noteq> Some Directory" by simp
  have 1: "checksum_changed example_sha Map.empty Map.empty KERNEL = Inr True"
    using checksum_changed_missing_file [of Map.empty KERNEL example_sha Map.empty]
    by simp
  have 2: "checksum_changed example_sha Map.empty ?db GRUB_CONF
             = Inl (FileNotFoundError GRUB_CONF)"
    using checksum_changed_missing_file [of ?db GRUB_CONF example_sha Map.empty] t
    by blast
  have 3: "\<exists>m\<in>set [KERNEL, GRUB_CONF].
      resources_changed_since_boot example_clock example_sha Map.empty T_2026 ?db
        [KERNEL, GRUB_CONF]
      = Inl (FileNotFoundError m, ?db)"
    using checksum_changed_missing_file [of ?db GRUB_CONF example_sha Map.empty] t g r d
    by blast
  from 1 2 3 show ?thesis by blast
qed

section \<open>\<open>update_resource_checksums\<close>\<close>

text \<open>
  C7. \<open>update_resource_checksums\<close> skips every name whose backing file does not exist:
  the recorded checksum of such a name is left as it was. It never modifies the change
  timestamp of a resource: for each of the module's resources, and for every name that
  does not end in \<open>.sha256sum\<close>, the entry and the timestamp read from it are the same
  before and after. Both hold of the store the call leaves, whether it returns or
  raises; it returns when no listed path is a directory.
\<close>

theorem update_resource_checksums_leaves:
  "(\<forall>name. fs name = None \<longrightarrow>
      store_after (update_resource_checksums sha fs db names) (sha256sum_key name)
        = db (sha256sum_key name)) \<and>
   (\<forall>r\<in>set module_resources.
      store_after (update_resource_checksums sha fs db names) (key_for r) = db (key_for r) \<and>
      get_resource_changed_timestamp clk
          (store_after (update_resource_checksums sha fs db names)) r
        = get_resource_changed_timestamp clk db r) \<and>
   (\<forall>r. \<not> suffix ''.sha256sum'' r \<longrightarrow>
      store_after (update_resource_checksums sha fs db names) (key_for r) = db (key_for r) \<and>
      get_resource_changed_timestamp clk
          (store_after (update_resource_checksums sha fs db names)) r
        = get_resource_changed_timestamp clk db r) \<and>
   ((\<forall>n\<in>set names. fs n \<noteq> Some Directory) \<longrightarrow>
      (\<exists>db'. update_resource_checksums sha fs db names = Inr db'))"
proof -
  let ?db' = "store_after (update_resource_checksums sha fs db names)"
  have a: "?db' (sha256sum_key name) = db (sha256sum_key name)" if "fs name = None" for name
  proof -
    from that
    have "\<forall>n\<in>set names. fs n \<noteq> None \<longrightarrow> sha256sum_key name \<noteq> sha256sum_key n"
      by auto
    from update_resource_checksums_other [OF this] show ?thesis .
  qed
  have b: "?db' (key_for r) = db (key_for r)" if "\<not> suffix ''.sha256sum'' r" for r
  proof -
    from that have "\<forall>n\<in>set names. fs n \<noteq> None \<longrightarrow> key_for r \<noteq> sha256sum_key n"
      by (simp add: key_for_not_sha256sum_key)
    from update_resource_checksums_other [OF this] show ?thesis .
  qed
  have c: "get_resource_changed_timestamp clk ?db' r = get_resource_changed_timestamp clk db r"
    if "\<not> suffix ''.sha256sum'' r" for r
    using b [OF that] by (simp add: get_resource_changed_timestamp_def)
  have d: "\<exists>db'. update_resource_checksums sha fs db names = Inr db'"
    if "\<forall>n\<in>set names. fs n \<noteq> Some Directory"
    using update_resource_checksums_returns [OF that] .
  from a b c d module_resources_no_sha256sum_suffix show ?thesis by blast
qed

theorem update_resource_checksums_leaves_witness:
  "update_resource_checksums example_sha [GRUB_CONF \<mapsto> RegularFile ''x'']
     [key_for KERNEL \<mapsto> Float 7, key_for GRUB_CONF \<mapsto> Float 9,
      sha256sum_key KERNEL \<mapsto> Str ''d:k'']
     [KERNEL, GRUB_CONF]
   = Inr [key_for KERNEL \<mapsto> Float 7, key_for GRUB_CONF \<mapsto> Float 9,
          sha256sum_key KERNEL \<mapsto> Str ''d:k'', sha256sum_key GRUB_CONF \<mapsto> Str ''d:x'']"
proof -
  let ?fs = "[GRUB_CONF \<mapsto> RegularFile ''x'']"
  let ?db = "[key_for KERNEL \<mapsto> Float 7, key_for GRUB_CONF \<mapsto> Float 9,
              sha256sum_key KERNEL \<mapsto> Str ''d:k'']"
  let ?names = "[KERNEL, GRUB_CONF]"
  note names = sha256sum_key_def key_for_def KERNEL_def GRUB_CONF_def
  have nd: "\<forall>n\<in>set ?names. ?fs n \<noteq> Some Directory" by (simp add: names)
  from update_resource_checksums_leaves [of ?fs example_sha ?db ?names example_clock] nd
  obtain db' where d: "update_resource_checksums example_sha ?fs ?db ?names = Inr db'"
    and a: "\<And>name. ?fs name = None \<Longrightarrow> db' (sha256sum_key name) = ?db (sha256sum_key name)"
    and b: "\<And>r. r \<in> set module_resources \<Longrightarrow> db' (key_for r) = ?db (key_for r)"
    by (metis store_after.simps(2))
  have k: "KERNEL \<in> set module_resources" "GRUB_CONF \<in> set module_resources"
    by (simp_all add: module_resources_def)
  have 1: "db' (sha256sum_key KERNEL) = Some (Str ''d:k'')"
    using a [of KERNEL] by (simp add: names)
  have 2: "db' (key_for KERNEL) = Some (Float 7)" "db' (key_for GRUB_CONF) = Some (Float 9)"
    using b [OF k(1)] b [OF k(2)] by (simp_all add: names)
  from d have "update_resource_checksums example_sha ?fs ?db ?names
     = Inr (?db(sha256sum_key GRUB_CONF \<mapsto> Str ''d:x''))"
    by (simp add: names calculate_resource_sha256sum_def read_file_def example_sha_def)
  then show ?thesis .
qed

section \<open>Changes since boot\<close>

text \<open>
  C3, as amended. Boot at \<open>T0\<close>, no acknowledgment on record, and a resource \<open>R\<close> with no
  recorded change timestamp: \<open>R\<close> is not among the names changed since boot (its default
  timestamp \<open>datetime.min\<close> is before every boot time). After \<open>set_resource(R)\<close> at
  \<open>T1 > T0\<close> it is. After an acknowledgment at \<open>T2 > T1\<close> it is not. The two later steps
  are for instants \<open>T1\<close> and \<open>T2\<close> that the store gives back as they were written (the
  float of the instant converts back to it), with a float of \<open>T2\<close> other than \<open>0.0\<close>.
\<close>

theorem changed_since_boot_scenario:
  assumes "db (key_for R) = None"
      and "clear_notification_time clk db = Inr None"
      and "T0 < T1" and "T1 < T2"
      and "fromtimestamp clk (timestamp clk T1) = Inr T1"
      and "fromtimestamp clk (timestamp clk T2) = Inr T2"
      and "timestamp clk T2 \<noteq> 0"
  shows "time_changed_since_boot clk T0 db [R] = Inr [] \<and>
         time_changed_since_boot clk T0 (set_resource clk T1 db R) [R] = Inr [R] \<and>
         time_changed_since_boot clk T0
           (clear_notification clk T2 (set_resource clk T1 db R)) [R] = Inr []"
proof -
  have 1: "time_changed_since_boot clk T0 db [R] = Inr []"
    using assms(1,2)
    by (simp add: time_changed_since_boot_def time_changed_def acknowledged_ts_def
          get_resource_changed_timestamp_def datetime_min_def)
  have c: "clear_notification_time clk (set_resource clk T1 db R) = Inr None"
    using assms(2) by (simp add: clear_notification_time_def set_resource_def)
  have 2: "time_changed_since_boot clk T0 (set_resource clk T1 db R) [R] = Inr [R]"
    using c assms(3,5)
    by (simp add: time_changed_since_boot_def time_changed_def acknowledged_ts_def
          get_resource_changed_timestamp_def set_resource_def)
  have c': "clear_notification_time clk (clear_notification clk T2 (set_resource clk T1 db R))
              = Inr (Some T2)"
    using assms(6,7) by (simp add: clear_notification_time_def clear_notification_def)
  have 3: "time_changed_since_boot clk T0
             (clear_notification clk T2 (set_resource clk T1 db R)) [R] = Inr []"
    using c' assms(4,5)
    by (simp add: time_changed_since_boot_def time_changed_def acknowledged_ts_def
          get_resource_changed_timestamp_def set_resource_def clear_notification_def)
  from 1 2 3 show ?thesis by simp
qed

theorem changed_since_boot_scenario_witness:
  "time_changed_since_boot example_clock T_2026 Map.empty [KERNEL] = Inr [] \<and>
   time_changed_since_boot example_clock T_2026
     (set_resource example_clock T_2026_1 Map.empty KERNEL) [KERNEL] = Inr [KERNEL] \<and>
   time_changed_since_boot example_clock T_2026
     (clear_notification example_clock T_2026_2
        (set_resource example_clock T_2026_1 Map.empty KERNEL)) [KERNEL] = Inr []"
proof -
  have h2: "clear_notification_time example_clock Map.empty = Inr None"
    by (simp add: clear_notification_time_def)
  have h3: "T_2026 < T_2026_1" "T_2026_1 < T_2026_2" by (simp_all add: example_clock_defs)
  have h5: "fromtimestamp example_clock (timestamp example_clock T_2026_1) = Inr T_2026_1"
           "fromtimestamp example_clock (timestamp example_clock T_2026_2) = Inr T_2026_2"
    by (simp_all add: example_clock_defs)
  have h7: "timestamp example_clock T_2026_2 \<noteq> 0" by (simp add: example_clock_defs)
  from changed_since_boot_scenario [of Map.empty KERNEL example_clock T_2026 T_2026_1 T_2026_2,
         OF _ h2 h3 h5 h7]
  show ?thesis by simp
qed

text \<open>
  The claim as stated fails at its first step: with an empty store and boot on
  1 January 2026 the list of the names changed since boot is empty.
\<close>

theorem no_record_not_changed_counterexample:
  "time_changed_since_boot example_clock T_2026 Map.empty [KERNEL] = Inr []"
  by (simp add: time_changed_since_boot_def time_changed_def acknowledged_ts_def
        clear_notification_time_def get_resource_changed_timestamp_def datetime_min_def)

text \<open>
  C1. The claim is that \<open>resources_changed_since_boot\<close> returns the set
  \<open>TimeChanged \<inter> (CsumChanged - CsumOnlyChanged)\<close> for every list; the lemma
  \<open>resources_changed_since_boot_value\<close> shows that it does when nothing stops the call.
  The code does not return on a list that names a resource with a checksum on record
  and no backing file: \<open>checksum_changed\<close> opens the file without the test of
  \<open>os.path.exists\<close> that \<open>update_resource_checksums\<close> makes. The state is reached through
  the module itself, here on the sample host: \<open>update_grub_file\<close> writes the grub file, a
  query after a reboot records its checksum, \<open>remove_grub_configuration\<close> deletes the
  file, and the next query raises \<open>FileNotFoundError\<close>.
\<close>

theorem removed_grub_file_query_raises:
  "update_grub_file example_collaborators example_config T_2026 empty_world
     = Inr example_grub_world_written \<and>
   resources_changed_since_boot example_clock example_sha
       (files example_grub_world_written) T_2026_1 (store example_grub_world_written)
       [GRUB_CONF]
     = Inr ({}, example_grub_store_queried) \<and>
   remove_grub_configuration example_collaborators example_config T_2026_2
       (example_grub_world_written\<lparr>store := example_grub_store_queried\<rparr>)
     = Inr example_grub_world_removed \<and>
   resources_changed_since_boot example_clock example_sha
       (files example_grub_world_removed) T_2026_1 (store example_grub_world_removed)
       [GRUB_CONF]
     = Inl (FileNotFoundError GRUB_CONF, store example_grub_world_removed)"
proof -
  note ex = example_collaborators_def example_config_def empty_world_def
    example_grub_world_written_def example_grub_store_queried_def
    example_grub_world_removed_def example_render_def example_parser_def example_sha_def
    example_clock_defs GRUB_CONF_def GRUB_CONF_TMPL_def
  have 1: "update_grub_file example_collaborators example_config T_2026 empty_world
     = Inr example_grub_world_written"
    by (simp add: update_grub_file_def assemble_grub_context'_def render_boot_resource'_def
          render_resource'_def update_grub'_def set_resource_def isolcpus_def
          reservation_def grub_config_flags_def parse_config_flags_def config_flags_def
          dict_get_def is_kernel_already_running'_def key_for_def ex Let_def)
  have 2: "resources_changed_since_boot example_clock example_sha
       (files example_grub_world_written) T_2026_1 (store example_grub_world_written)
       [GRUB_CONF]
     = Inr ({}, example_grub_store_queried)"
    by (simp add: brs_defs ex Let_def)
  have 3: "remove_grub_configuration example_collaborators example_config T_2026_2
       (example_grub_world_written\<lparr>store := example_grub_store_queried\<rparr>)
     = Inr example_grub_world_removed"
    by (simp add: remove_grub_configuration_def update_grub'_def set_resource_def
          sha256sum_key_def key_for_def ex Let_def)
  have 4: "resources_changed_since_boot example_clock example_sha
       (files example_grub_world_removed) T_2026_1 (store example_grub_world_removed)
       [GRUB_CONF]
     = Inl (FileNotFoundError GRUB_CONF, store example_grub_world_removed)"
    by (simp add: brs_defs ex Let_def)
  from 1 2 3 4 show ?thesis by blast
qed

text \<open>
  C4. The claim is that a call stores the present digest of every listed resource
  whose checksum has drifted and whose change is not after the cutoff, and leaves it out
  of the result; the lemma \<open>resources_changed_since_boot_catch_up\<close> shows that it does
  when nothing stops the call. The code does not when another listed resource has a
  checksum on record and no backing file: the unguarded \<open>open\<close> of \<open>checksum_changed\<close>
  raises before \<open>update_resource_checksums\<close> is reached. On the sample store the query
  of the systemd file alone stores its digest \<open>d:cur\<close>; the query of the systemd file
  and the removed grub file raises and leaves the old digest \<open>d:old\<close>.
\<close>

theorem catch_up_lost_when_other_file_missing:
  "resources_changed_since_boot example_clock example_sha example_drift_files T_2026_1
       example_drift_store [SYSTEMD_SYSTEM]
     = Inr ({}, example_drift_store(sha256sum_key SYSTEMD_SYSTEM \<mapsto> Str ''d:cur'')) \<and>
   resources_changed_since_boot example_clock example_sha example_drift_files T_2026_1
       example_drift_store [SYSTEMD_SYSTEM, GRUB_CONF]
     = Inl (FileNotFoundError GRUB_CONF, example_drift_store) \<and>
   example_drift_store (sha256sum_key SYSTEMD_SYSTEM) = Some (Str ''d:old'')"
  by (simp add: brs_defs example_drift_files_def example_drift_store_def example_sha_def
        example_clock_defs GRUB_CONF_def SYSTEMD_SYSTEM_def Let_def)

section \<open>Config flags\<close>

text \<open>
  C8. \<open>parse_config_flags\<close> maps \<open>key1=val1, key2=val2,val3,val4\<close> to
  \<open>{key1: val1, key2: val2,val3,val4}\<close>: the tokens \<open>val3\<close> and \<open>val4\<close>, which have no
  \<open>=\<close>, are joined with commas onto the value before them. It maps
  \<open>key1="subkey1=val1,val2 subkey2=val3"\<close> to the one key \<open>key1\<close> with the quoted text
  as its value, comma and quotes kept.
\<close>

theorem parse_config_flags_examples:
  \<open>parse_config_flags ''key1=val1, key2=val2,val3,val4''
     = [(''key1'', ''val1''), (''key2'', ''val2,val3,val4'')] \<and>
   parse_config_flags ''key1="subkey1=val1,val2 subkey2=val3"''
     = [(''key1'', ''"subkey1=val1,val2 subkey2=val3"'')]\<close>
  by (simp add: parse_config_flags_def strip_def isspace_def quote_def)

section \<open>\<open>str.replace\<close> and the UUID rewrite\<close>

lemma py_replace_Nil: "old \<noteq> [] \<Longrightarrow> py_replace old new [] = []"
  by (simp add: py_replace.simps)

lemma py_replace_hit:
  "old \<noteq> [] \<Longrightarrow> prefix old s \<Longrightarrow>
   py_replace old new s = new @ py_replace old new (drop (length old) s)"
  by (subst py_replace.simps) auto

lemma py_replace_miss:
  "old \<noteq> [] \<Longrightarrow> \<not> prefix old (c # cs) \<Longrightarrow>
   py_replace old new (c # cs) = c # py_replace old new cs"
  by (subst py_replace.simps) auto

lemma py_replace_contains_new:
  "old \<noteq> [] \<Longrightarrow> sublist old s \<Longrightarrow> sublist new (py_replace old new s)"
proof (induction s rule: length_induct)
  case (1 s)
  show ?case
  proof (cases "prefix old s")
    case True
    with 1 show ?thesis by (simp add: py_replace_hit)
  next
    case False
    with 1(3) obtain c cs where s: "s = c # cs" by (cases s) auto
    with False 1(3) have "sublist old cs" by (simp add: sublist_Cons_right)
    with 1 s have "sublist new (py_replace old new cs)" by simp
    then have "sublist new (c # py_replace old new cs)" by (simp add: sublist_Cons_right)
    with False s 1(2) show ?thesis by (simp add: py_replace_miss)
  qed
qed

text \<open>
  No occurrence of \<open>old\<close> is left when \<open>old\<close> and \<open>new\<close> cannot overlap in a way that
  builds a fresh occurrence: neither contains the other, no proper prefix of \<open>old\<close>
  ends \<open>new\<close>, and an end of \<open>old\<close> that begins \<open>new\<close> also begins \<open>old\<close>.
\<close>

lemma py_replace_prefix_back:
  assumes ne: "old \<noteq> []"
      and D: "\<And>b. suffix b old \<Longrightarrow> prefix b new \<Longrightarrow> prefix b old"
      and B: "\<not> sublist new old"
  shows "suffix b old \<Longrightarrow> prefix b (py_replace old new t) \<Longrightarrow> prefix b t"
proof (induction t arbitrary: b rule: length_induct)
  case (1 t)
  show ?case
  proof (cases "prefix old t")
    case True
    from 1(3) True ne have "prefix b (new @ py_replace old new (drop (length old) t))"
      by (simp add: py_replace_hit)
    then consider "prefix b new"
      | us where "b = new @ us"
      by (auto simp: prefix_append)
    then show ?thesis
    proof cases
      case 1
      with D \<open>suffix b old\<close> have "prefix b old" by blast
      with True show ?thesis by (meson prefix_order.trans)
    next
      case 2
      with \<open>suffix b old\<close> have "sublist new old"
        by (metis sublist_appendI suffix_def)
      with B show ?thesis by simp
    qed
  next
    case False
    show ?thesis
    proof (cases t)
      case Nil
      with 1(3) ne show ?thesis by (simp add: py_replace_Nil)
    next
      case (Cons c cs)
      show ?thesis
      proof (cases b)
        case Nil
        then show ?thesis by simp
      next
        case (Cons x b')
        from False \<open>t = c # cs\<close> ne 1(3) Cons
        have "x = c" "prefix b' (py_replace old new cs)"
          by (simp_all add: py_replace_miss)
        moreover have "suffix b' old" using 1(2) Cons by (simp add: suffix_ConsD)
        ultimately have "prefix b' cs" using 1(1) \<open>t = c # cs\<close> by simp
        with \<open>x = c\<close> Cons \<open>t = c # cs\<close> show ?thesis by simp
      qed
    qed
  qed
qed

lemma py_replace_removes_old:
  assumes ne: "old \<noteq> []"
      and A: "\<not> sublist old new"
      and B: "\<not> sublist new old"
      and C: "\<And>p. p \<noteq> [] \<Longrightarrow> prefix p old \<Longrightarrow> suffix p new \<Longrightarrow> p = old"
      and D: "\<And>b. suffix b old \<Longrightarrow> prefix b new \<Longrightarrow> prefix b old"
  shows "\<not> sublist old (py_replace old new s)"
proof (induction s rule: length_induct)
  case (1 s)
  show ?case
  proof (cases "prefix old s")
    case True
    let ?r = "py_replace old new (drop (length old) s)"
    have IH: "\<not> sublist old ?r" using 1 True ne
      by (metis diff_less length_drop length_greater_0_conv prefix_length_le
          order_less_le_trans)
    have "\<not> sublist old (new @ ?r)"
    proof
      assume "sublist old (new @ ?r)"
      then consider "sublist old new" | "sublist old ?r"
        | p q where "old = p @ q" "suffix p new" "prefix q ?r"
        by (auto simp: sublist_append)
      then show False
      proof cases
        case 1 with A show False by simp
      next
        case 2 with IH show False by simp
      next
        case 3
        show False
        proof (cases "p = []")
          case True
          with 3 have "sublist old ?r" by auto
          with IH show False by simp
        next
          case False
          with C [of p] 3 have "p = old" by auto
          with 3 have "sublist old new" by auto
          with A show False by simp
        qed
      qed
    qed
    with True ne show ?thesis by (simp add: py_replace_hit)
  next
    case False
    show ?thesis
    proof (cases s)
      case Nil
      with ne show ?thesis by (simp add: py_replace_Nil)
    next
      case (Cons c cs)
      have IH: "\<not> sublist old (py_replace old new cs)" using 1 Cons by simp
      have "\<not> prefix old (py_replace old new s)"
        using py_replace_prefix_back [OF ne D B, of old s] False by auto
      with IH False Cons ne show ?thesis
        by (simp add: py_replace_miss sublist_Cons_right)
    qed
  qed
qed

text \<open>The four conditions, for \<open>root=UUID=X\<close> with no \<open>=\<close> in \<open>X\<close> and \<open>root=LABEL=mylabel\<close>.\<close>

lemma root_uuid_not_in_label: "\<not> sublist (''root=UUID='' @ X) ''root=LABEL=mylabel''"
proof
  assume "sublist (''root=UUID='' @ X) ''root=LABEL=mylabel''"
  then obtain ps ss where "''root=LABEL=mylabel'' = ps @ (''root=UUID='' @ X) @ ss"
    unfolding sublist_def by blast
  then have "''root=LABEL=mylabel'' = ps @ ''root=UUID='' @ (X @ ss)"
    by (simp only: append_assoc)
  then have "sublist ''root=UUID='' ''root=LABEL=mylabel''"
    unfolding sublist_def by blast
  then show False by code_simp
qed

lemma suffixes_label:
  "suffix p ''root=LABEL=mylabel'' \<Longrightarrow> p \<noteq> [] \<Longrightarrow> hd p = CHR ''r'' \<Longrightarrow> p = ''root=LABEL=mylabel''"
  by (auto simp: suffix_Cons)

lemma root_uuid_prefix_ends_label:
  assumes "p \<noteq> []" "prefix p (''root=UUID='' @ X)" "suffix p ''root=LABEL=mylabel''"
  shows "p = ''root=UUID='' @ X"
proof -
  from assms(1,2) have "hd p = CHR ''r''" by (cases p) auto
  with suffixes_label assms have "p = ''root=LABEL=mylabel''" by blast
  with assms(2) show ?thesis by simp
qed

lemma prefixes_label_no_eq:
  "prefix b ''root=LABEL=mylabel'' \<Longrightarrow> CHR ''='' \<notin> set b \<Longrightarrow> prefix b ''root''"
  by (auto simp: prefix_Cons)

lemma suffixes_uuid:
  "suffix a ''root=UUID='' \<Longrightarrow> a = [] \<or> a = ''root=UUID='' \<or> hd a \<noteq> CHR ''r''"
  by (auto simp: suffix_Cons)

lemma root_uuid_suffix_begins_label:
  assumes X: "CHR ''='' \<notin> set X"
      and s: "suffix b (''root=UUID='' @ X)" and p: "prefix b ''root=LABEL=mylabel''"
  shows "prefix b (''root=UUID='' @ X)"
proof -
  from s [unfolded suffix_append]
  consider "suffix b X" | a where "b = a @ X" "suffix a ''root=UUID=''" "a \<noteq> []"
    by (cases "b = X") auto
  then show ?thesis
  proof cases
    case 1
    then have "CHR ''='' \<notin> set b" using X set_mono_suffix by fastforce
    with p have "prefix b ''root''" by (rule prefixes_label_no_eq)
    then have "prefix b (''root'' @ (''=UUID='' @ X))" by (rule prefix_prefix)
    then show ?thesis by simp
  next
    case 2
    from 2(1,3) p have "hd a = CHR ''r''" by (cases a) auto
    with suffixes_uuid [OF 2(2)] 2(3) have "a = ''root=UUID=''" by blast
    with 2(1) show ?thesis by simp
  qed
qed

lemma split_tail: "p @ q = a @ c \<Longrightarrow> length p \<le> length a \<Longrightarrow> set c \<subseteq> set q"
proof -
  assume e: "p @ q = a @ c" and l: "length p \<le> length a"
  have "q = drop (length p) (p @ q)" by simp
  also have "\<dots> = drop (length p) a @ c" using e l by simp
  finally show ?thesis by auto
qed

lemma label_not_in_root_uuid:
  assumes X: "CHR ''='' \<notin> set X"
  shows "\<not> sublist ''root=LABEL=mylabel'' (''root=UUID='' @ X)"
proof
  assume "sublist ''root=LABEL=mylabel'' (''root=UUID='' @ X)"
  from this [unfolded sublist_append]
  consider "sublist ''root=LABEL=mylabel'' ''root=UUID=''"
    | "sublist ''root=LABEL=mylabel'' X"
    | p q where "''root=LABEL=mylabel'' = p @ q" "suffix p ''root=UUID=''" "prefix q X"
    by blast
  then show False
  proof cases
    case 1
    then have "length ''root=LABEL=mylabel'' \<le> length ''root=UUID=''" by (rule sublist_length_le)
    then show False by simp
  next
    case 2
    then have "set ''root=LABEL=mylabel'' \<subseteq> set X" by (rule set_mono_sublist)
    with X show False by auto
  next
    case 3
    from 3(3) X have q: "CHR ''='' \<notin> set q" using set_mono_prefix by fastforce
    from 3(2) have "length p \<le> length ''root=UUID=''" by (rule suffix_length_le)
    then have l: "length p \<le> length ''root=LABEL''" by simp
    from 3(1) have "p @ q = ''root=LABEL'' @ ''=mylabel''" by simp
    from split_tail [OF this l] q show False by simp
  qed
qed

text \<open>
  C9, as amended. For every grub text that contains \<open>root=UUID=X\<close>, where \<open>X\<close> has no
  \<open>=\<close> (the keys that \<open>_get_blkid_mapping\<close> builds have none), and the mapping
  \<open>{X: "mylabel"}\<close>: the rewritten text contains \<open>root=LABEL=mylabel\<close> and does not
  contain \<open>root=UUID=X\<close>.
\<close>

theorem replace_uuids_with_labels_root:
  assumes "sublist (''root=UUID='' @ X) content" and "CHR ''='' \<notin> set X"
  shows "sublist ''root=LABEL=mylabel'' (replace_uuids_with_labels' content [(X, ''mylabel'')]) \<and>
         \<not> sublist (''root=UUID='' @ X) (replace_uuids_with_labels' content [(X, ''mylabel'')])"
proof -
  have ne: "''root=UUID='' @ X \<noteq> []" by simp
  have r: "replace_uuids_with_labels' content [(X, ''mylabel'')]
             = py_replace (''root=UUID='' @ X) ''root=LABEL=mylabel'' content"
    by simp
  have 1: "sublist ''root=LABEL=mylabel''
             (py_replace (''root=UUID='' @ X) ''root=LABEL=mylabel'' content)"
    using py_replace_contains_new [OF ne assms(1)] .
  have 2: "\<not> sublist (''root=UUID='' @ X)
             (py_replace (''root=UUID='' @ X) ''root=LABEL=mylabel'' content)"
    by (rule py_replace_removes_old
          [OF ne root_uuid_not_in_label label_not_in_root_uuid [OF assms(2)]
              root_uuid_prefix_ends_label root_uuid_suffix_begins_label [OF assms(2)]])
  from 1 2 show ?thesis unfolding r by simp
qed

theorem replace_uuids_with_labels_root_witness:
  "sublist ''root=LABEL=mylabel''
     (replace_uuids_with_labels' ''linux /vmlinuz root=UUID=0a1b-2c3d ro quiet''
        [(''0a1b-2c3d'', ''mylabel'')]) \<and>
   \<not> sublist ''root=UUID=0a1b-2c3d''
     (replace_uuids_with_labels' ''linux /vmlinuz root=UUID=0a1b-2c3d ro quiet''
        [(''0a1b-2c3d'', ''mylabel'')])"
proof -
  have 1: "sublist (''root=UUID='' @ ''0a1b-2c3d'') ''linux /vmlinuz root=UUID=0a1b-2c3d ro quiet''"
    by code_simp
  have 2: "CHR ''='' \<notin> set ''0a1b-2c3d''" by simp
  from replace_uuids_with_labels_root [OF 1 2] show ?thesis by simp
qed

text \<open>
  The claim as stated fails: only \<open>root=UUID=X\<close> is replaced, so a text that also holds
  \<open>resume=UUID=X\<close> still contains \<open>UUID=X\<close> after the rewrite.
\<close>

theorem replace_uuids_with_labels_other_uuid_counterexample:
  "sublist ''root=UUID=0a1b-2c3d'' ''linux /vmlinuz root=UUID=0a1b-2c3d ro resume=UUID=0a1b-2c3d'' \<and>
   sublist ''UUID=0a1b-2c3d''
     (replace_uuids_with_labels' ''linux /vmlinuz root=UUID=0a1b-2c3d ro resume=UUID=0a1b-2c3d''
        [(''0a1b-2c3d'', ''mylabel'')])"
  by code_simp

text \<open>
  Without the condition on \<open>X\<close> a replacement can build a new occurrence of
  \<open>root=UUID=X\<close> from the text before it and the start of the label.
\<close>

lemma replace_uuids_with_labels_equals_sign_example:
  "sublist ''root=UUID=zroot=L''
     (replace_uuids_with_labels' ''root=UUID=zroot=UUID=zroot=L'' [(''zroot=L'', ''mylabel'')])"
  by code_simp

section \<open>Reconciliation methods\<close>

text \<open>
  C6. With a configured kernel version that is not empty and equals the running
  release, \<open>install_configured_kernel\<close> runs \<open>apt_update\<close>, installs
  \<open>linux-modules-extra-<version>\<close> and nothing else: no image install and no
  \<open>set_resource\<close> (the store and the files are as before). In every call the kernel
  resource is stamped as changed when the image package was installed in that call, and
  the store is untouched when it was not.
\<close>

theorem install_configured_kernel_marks_changed:
  "(cfg_kernel_version cfg \<noteq> [] \<and> cfg_kernel_version cfg = running_kernel ext \<longrightarrow>
      install_configured_kernel ext cfg now w =
        w\<lparr>actions := actions w @
             [AptUpdate, AptInstall (''linux-modules-extra-'' @ cfg_kernel_version cfg)]\<rparr>) \<and>
   (AptInstall (''linux-image-'' @ cfg_kernel_version cfg)
       \<in> set (performed w (install_configured_kernel ext cfg now w))
      \<longrightarrow> store (install_configured_kernel ext cfg now w)
            = set_resource (float_clock ext) now (store w) KERNEL) \<and>
   (AptInstall (''linux-image-'' @ cfg_kernel_version cfg)
       \<notin> set (performed w (install_configured_kernel ext cfg now w))
      \<longrightarrow> store (install_configured_kernel ext cfg now w) = store w)"
  by (auto simp: install_configured_kernel_def is_kernel_already_running'_def Let_def
        performed_def)

theorem install_configured_kernel_marks_changed_witness:
  "install_configured_kernel example_collaborators example_config T_2026 empty_world
     = empty_world\<lparr>actions := [AptUpdate, AptInstall ''linux-modules-extra-5.15.0-91-generic'']\<rparr> \<and>
   store (install_configured_kernel example_collaborators
            (example_config\<lparr>cfg_kernel_version := ''6.5.0-14-generic''\<rparr>) T_2026 empty_world)
     = [key_for KERNEL \<mapsto> Float 1767225600]"
proof -
  let ?cfg2 = "example_config\<lparr>cfg_kernel_version := ''6.5.0-14-generic''\<rparr>"
  have 1: "install_configured_kernel example_collaborators example_config T_2026 empty_world
     = empty_world\<lparr>actions := [AptUpdate, AptInstall ''linux-modules-extra-5.15.0-91-generic'']\<rparr>"
    using install_configured_kernel_marks_changed
            [of example_config example_collaborators T_2026 empty_world]
    by (simp add: example_config_def example_collaborators_def empty_world_def)
  have "AptInstall (''linux-image-'' @ cfg_kernel_version ?cfg2)
       \<in> set (performed empty_world
                (install_configured_kernel example_collaborators ?cfg2 T_2026 empty_world))"
    by (simp add: install_configured_kernel_def is_kernel_already_running'_def Let_def
          performed_def example_config_def example_collaborators_def empty_world_def)
  with install_configured_kernel_marks_changed
         [of ?cfg2 example_collaborators T_2026 empty_world]
  have 2: "store (install_configured_kernel example_collaborators ?cfg2 T_2026 empty_world)
     = set_resource (float_clock example_collaborators) T_2026 (store empty_world) KERNEL"
    by blast
  from 1 2 show ?thesis
    by (simp add: set_resource_def empty_world_def example_collaborators_def
          example_clock_defs)
qed








end
